theory Spec2Isabelle
  imports Main "HOL-Library.AList" "HOL-Library.DAList" "HOL-Library.Sublist"
begin

section \<open>Webviews compiled from a description: \<^verbatim>\<open>src/webviews/main.ts\<close>\<close>

text \<open>
  The file compiles a static webview description into a class (\<^verbatim>\<open>compileVueWebview\<close>),
  creates the host panel for it (\<^verbatim>\<open>createVueWebview\<close>) and assembles the HTML document
  of the panel (\<^verbatim>\<open>resolveWebviewHtml\<close>). The embedding below follows the source function
  by function. What the source takes from \<^verbatim>\<open>vscode\<close>, \<^verbatim>\<open>path\<close>, \<^verbatim>\<open>process.env\<close> and
  \<^verbatim>\<open>../shared\<close> is a field of the record \<open>vscode\<close>, a parameter of every function that
  needs it.
\<close>

subsection \<open>JavaScript objects\<close>

text \<open>
  A JavaScript object with string keys is an association list with distinct keys, in
  insertion order: \<open>DAList.update\<close> overwrites the value of a key that is present and
  appends a key that is not, as the definition of an own property does.
\<close>

type_synonym 'v obj = "(string, 'v) alist"

definition Object_keys :: "'v obj \<Rightarrow> string list" where
  "Object_keys ob = map fst (DAList.impl_of ob)"

definition Object_values :: "'v obj \<Rightarrow> 'v list" where
  "Object_values ob = map snd (DAList.impl_of ob)"

text \<open>
  \<^verbatim>\<open>{ ...target, ...src }\<close> in an object literal: every own property of \<open>src\<close>, in
  order, is defined on the new object. Properties are defined, not assigned, so no setter
  runs and every key, \<^verbatim>\<open>__proto__\<close> too, becomes an own key. The function \<open>f\<close> says how
  an entry of \<open>src\<close> is seen in the type of the merged object.
\<close>

definition spread :: "('a \<Rightarrow> 'v) \<Rightarrow> 'v obj \<Rightarrow> 'a obj \<Rightarrow> 'v obj" where
  "spread f target src = fold (\<lambda>(k, v). DAList.update k (f v)) (DAList.impl_of src) target"

text \<open>\<^verbatim>\<open>...(x ?? {})\<close> and \<^verbatim>\<open>...x\<close> for an optional object: spreading \<^verbatim>\<open>undefined\<close> adds nothing.\<close>

definition spread_opt :: "('a \<Rightarrow> 'v) \<Rightarrow> 'v obj \<Rightarrow> 'a obj option \<Rightarrow> 'v obj" where
  "spread_opt f target src = (case src of None \<Rightarrow> target | Some s \<Rightarrow> spread f target s)"

subsection \<open>Objects that can be written to\<close>

datatype js_error = TypeError

text \<open>
  An object with its integrity level. An object literal makes an extensible object
  with writable properties, which is not frozen; only \<^verbatim>\<open>Object.freeze\<close> would freeze
  it, and the source never calls it (\<^verbatim>\<open>readonly\<close> on a field is a type annotation, erased
  when the program runs).
\<close>

record 'v js_object =
  properties :: "'v obj"
  frozen :: bool

definition object_literal :: "'v obj \<Rightarrow> 'v js_object" where
  "object_literal props = \<lparr>properties = props, frozen = False\<rparr>"

text \<open>
  \<^verbatim>\<open>ob[k] = v\<close> in strict code, on an object whose prototype is \<^verbatim>\<open>Object.prototype\<close>:
  a frozen object refuses the write with a \<^verbatim>\<open>TypeError\<close>; the key \<^verbatim>\<open>__proto__\<close>, when it
  is not an own key, reaches the setter of \<^verbatim>\<open>Object.prototype\<close> and leaves the
  properties as they are; any other write sets the own property.
\<close>

definition put_property :: "string \<Rightarrow> 'v \<Rightarrow> 'v js_object \<Rightarrow> js_error + 'v js_object" where
  "put_property k v ob =
     (if frozen ob then Inl TypeError
      else if k = ''__proto__'' \<and> DAList.lookup (properties ob) k = None then Inr ob
      else Inr (ob\<lparr>properties := DAList.update k v (properties ob)\<rparr>))"

text \<open>
  What an assignment finds under a key on the prototype chain of an object, below the
  object itself and above \<^verbatim>\<open>Object.prototype\<close>: nothing, a data property (writable or
  not), or an accessor (with a setter or without).
\<close>

datatype inherited = nothing | data_property bool | accessor bool

subsection \<open>Hooks\<close>

text \<open>
  What a validation hook gives back. The source only looks at the truthiness of the value
  (\<^verbatim>\<open>validate && (await validate)\<close>), so a value that is not a promise is its truthiness;
  a promise (always truthy as an object) is what awaiting it gives: a value, again as its
  truthiness, or a rejection. A hook may also throw.
\<close>

datatype 'x awaited = Fulfils bool | Rejects 'x

datatype 'x hook_result = Value bool | Promise "'x awaited" | Throws 'x

text \<open>
  \<^verbatim>\<open>await params.hook?.(arg)\<close>: no hook gives \<^verbatim>\<open>undefined\<close> (falsy); a throw or a rejection
  is the error of the enclosing async function (\<open>Inl\<close>).
\<close>

fun await_call :: "'x hook_result option \<Rightarrow> 'x + bool" where
  "await_call None = Inr False"
| "await_call (Some (Value b)) = Inr b"
| "await_call (Some (Promise (Fulfils b))) = Inr b"
| "await_call (Some (Promise (Rejects e))) = Inl e"
| "await_call (Some (Throws e)) = Inl e"

subsection \<open>The description of a webview\<close>

record ExtContext =
  extensionPath :: string

record WebviewParams =
  id_w :: string
  name :: string
  webviewJs :: string
  persistWithoutFocus :: "bool option"
  cssFiles :: "string list option"
  libFiles :: "string list option"

text \<open>
  \<^verbatim>\<open>WebviewParams & WebviewCompileOptions<C, E, D, S>\<close>: the optional command handlers
  (\<open>'c\<close>), event declarations (\<open>'ev\<close>) and the two hooks, over initial data \<open>'d\<close>, submitted
  results \<open>'s\<close> and errors \<open>'x\<close>. An optional argument \<^verbatim>\<open>data?: D\<close> is a \<open>'d option\<close>,
  \<open>None\<close> for \<^verbatim>\<open>undefined\<close>.
\<close>

record ('c, 'ev, 'd, 's, 'x) CompileParams = WebviewParams +
  commands :: "'c obj option"
  events :: "'ev obj option"
  validateData :: "('d option \<Rightarrow> 'x hook_result) option"
  validateSubmit :: "('s \<Rightarrow> 'x hook_result) option"

subsection \<open>The host: \<^verbatim>\<open>vscode\<close>, \<^verbatim>\<open>path\<close>, \<^verbatim>\<open>process.env\<close>, \<^verbatim>\<open>ExtensionUtilities\<close>\<close>

datatype ViewColumn = Two | Beside

record 'u vscode =
  isCloud9 :: bool
  WEBPACK_DEVELOPER_SERVER :: "string option"
  path_join :: "string list \<Rightarrow> string"
  Uri_file :: "string \<Rightarrow> 'u"
  Uri_parse :: "string \<Rightarrow> 'u"
  Uri_toString :: "'u \<Rightarrow> string"
  Uri_with_path :: "'u \<Rightarrow> string \<Rightarrow> 'u"
  asWebviewUri :: "'u \<Rightarrow> 'u"
  webview_cspSource :: string
  getFilesAsVsCodeResources :: "string \<Rightarrow> string list \<Rightarrow> 'u list"
  EventEmitter_property :: "string \<Rightarrow> inherited"

record 'u WebviewPanel =
  viewType :: string
  title :: string
  showOptions :: ViewColumn
  enableScripts :: bool
  enableCommandUris :: bool
  localResourceRoots :: "'u list"
  retainContextWhenHidden :: "bool option"
  html :: string

text \<open>The panels the window has created so far, oldest first.\<close>

type_synonym 'u window = "'u WebviewPanel list"

text \<open>
  Object identities: the heap is the next unused address, and \<^verbatim>\<open>new vscode.EventEmitter()\<close>
  takes it.
\<close>

type_synonym heap = nat

type_synonym EventEmitter = nat

definition new_EventEmitter :: "heap \<Rightarrow> EventEmitter \<times> heap" where
  "new_EventEmitter h = (h, Suc h)"

subsection \<open>\<^verbatim>\<open>resolveWebviewHtml\<close> (lines 156 to 198)\<close>

record 'u HtmlParams =
  scripts :: string
  stylesheets :: string
  cspSource :: string
  webviewJs' :: string
  main :: 'u

record 'u ResolvedParams = "'u HtmlParams" +
  connectSource :: string

definition nl :: char where
  "nl = CHR 0x0A"

text \<open>The lines of a template literal, joined by the line breaks between them.\<close>

fun unlines :: "string list \<Rightarrow> string" where
  "unlines [] = []"
| "unlines [l] = l"
| "unlines (l # l' # ls) = l @ nl # unlines (l' # ls)"

text \<open>The element \<^verbatim>\<open><script src="${src}"></script>\<close> of lines 132 and 195.\<close>

definition script_tag :: "string \<Rightarrow> string" where
  \<open>script_tag src = ''<script src="'' @ src @ ''"></script>''\<close>

text \<open>\<^verbatim>\<open>if (LOCAL_SERVER)\<close>: an unset variable and the empty string are falsy.\<close>

definition truthy_string :: "string option \<Rightarrow> bool" where
  "truthy_string v = (case v of None \<Rightarrow> False | Some s \<Rightarrow> s \<noteq> [])"

text \<open>Lines 163 to 171: the parameters the template is filled with.\<close>

definition resolvedParams :: "'u vscode \<Rightarrow> 'u HtmlParams \<Rightarrow> 'u ResolvedParams" where
  \<open>resolvedParams vs params =
    (let resolvedParams = HtmlParams.extend params \<lparr>connectSource = ''none''\<rparr>;
         LOCAL_SERVER = WEBPACK_DEVELOPER_SERVER vs
     in if truthy_string LOCAL_SERVER then
          let local = Uri_parse vs (the LOCAL_SERVER) in
          resolvedParams
            \<lparr>cspSource := cspSource params @ '' '' @ Uri_toString vs local,
             main := Uri_with_path vs local (''/'' @ webviewJs' params),
             connectSource := '''self' ws:''\<rparr>
        else resolvedParams)\<close>

text \<open>Lines 173 to 197: the template literal, line by line.\<close>

definition html_template :: "'u vscode \<Rightarrow> 'u ResolvedParams \<Rightarrow> string" where
  \<open>html_template vs r = unlines
     [''<html>'',
      ''    <head>'',
      ''        <meta charset="UTF-8">'',
      ''        <meta name="viewport" content="width=device-width, initial-scale=1.0">'',
      ''        '',
      ''        <meta'',
      ''            http-equiv="Content-Security-Policy"'',
      ''            content='',
      ''                "default-src 'none';'',
      ''                connect-src '' @ connectSource r @ '';'',
      ''                img-src '' @ cspSource r @ '' https:;'',
      ''                script-src '' @ cspSource r @ '';'',
      ''                style-src '' @ cspSource r @ '' 'unsafe-inline';'',
      ''                font-src 'self' data:;"'',
      ''        >'',
      ''    </head>'',
      ''    <body>'',
      ''        <div id="vue-app"></div>'',
      ''        <!-- Dependencies -->'',
      ''        '' @ scripts r,
      ''        '' @ stylesheets r,
      ''        <!-- Main -->'',
      ''        '' @ script_tag (Uri_toString vs (main r)),
      ''    </body>'',
      ''</html>'']\<close>

definition resolveWebviewHtml :: "'u vscode \<Rightarrow> 'u HtmlParams \<Rightarrow> string" where
  "resolveWebviewHtml vs params = html_template vs (resolvedParams vs params)"

subsection \<open>\<^verbatim>\<open>createVueWebview\<close> (lines 92 to 151)\<close>

definition createVueWebview ::
  "'u vscode \<Rightarrow> ('z WebviewParams_scheme) \<Rightarrow> ExtContext \<Rightarrow> 'u window
    \<Rightarrow> 'u WebviewPanel \<times> 'u window" where
  \<open>createVueWebview vs params context w =
    (let libsPath = path_join vs [extensionPath context, ''media'', ''libs''];
         jsPath = path_join vs [extensionPath context, ''media'', ''js''];
         cssPath = path_join vs [extensionPath context, ''media'', ''css''];
         webviewPath = path_join vs [extensionPath context, ''dist''];
         resourcesPath = path_join vs [extensionPath context, ''resources''];
         loadLibs =
           getFilesAsVsCodeResources vs libsPath
             (''vue.min.js'' # (case libFiles params of None \<Rightarrow> [] | Some fs \<Rightarrow> fs))
           @ getFilesAsVsCodeResources vs jsPath [''loadVsCodeApi.js''];
         loadCss =
           getFilesAsVsCodeResources vs cssPath
             (case cssFiles params of None \<Rightarrow> [] | Some fs \<Rightarrow> fs);
         scripts = fold (\<lambda>element scripts.
             scripts @ script_tag (Uri_toString vs element) @ [nl, nl])
           loadLibs [];
         stylesheets = fold (\<lambda>element stylesheets.
             stylesheets @ ''<link rel="stylesheet" href="'' @ Uri_toString vs element @ ''">''
               @ [nl, nl])
           loadCss [];
         mainScript = asWebviewUri vs (Uri_file vs (path_join vs [webviewPath, webviewJs params]));
         panel =
           \<lparr>viewType = id_w params,
            title = name params,
            showOptions = (if isCloud9 vs then Two else Beside),
            enableScripts = True,
            enableCommandUris = True,
            localResourceRoots =
              [Uri_file vs libsPath, Uri_file vs jsPath, Uri_file vs cssPath,
               Uri_file vs webviewPath, Uri_file vs resourcesPath],
            retainContextWhenHidden =
              (if isCloud9 vs then Some True else persistWithoutFocus params),
            html = resolveWebviewHtml vs
              \<lparr>scripts = scripts, stylesheets = stylesheets,
               cspSource = webview_cspSource vs, webviewJs' = webviewJs params,
               main = mainScript\<rparr>\<rparr>
     in (panel, w @ [panel]))\<close>

subsection \<open>The compiled class: fields and constructor (lines 46 to 53, 80 to 86)\<close>

text \<open>An entry of the \<^verbatim>\<open>protocol\<close> field: the two placeholders, or a declared entry.\<close>

datatype ('c, 'ev) protocol_entry =
  submit_placeholder    \<comment> \<open>\<^verbatim>\<open>() => {}\<close>\<close>
| init_placeholder      \<comment> \<open>\<^verbatim>\<open>() => ({} as D)\<close>\<close>
| declared_command 'c
| declared_event 'ev

text \<open>
  An instance. The object \<^verbatim>\<open>emitters\<close> is its own properties, \<open>emitters\<close>, and its
  prototype, \<open>emitters_prototype\<close>: \<open>None\<close> for \<^verbatim>\<open>Object.prototype\<close>, the prototype of
  \<^verbatim>\<open>{}\<close>, or the emitter that an assignment to \<^verbatim>\<open>__proto__\<close> has put there.
\<close>

record ('c, 'ev) VueWebview =
  protocol :: "('c, 'ev) protocol_entry js_object"
  emitters :: "EventEmitter obj"
  emitters_prototype :: "EventEmitter option"
  context_w :: ExtContext

text \<open>Lines 47 to 52: the field initialiser, an object literal.\<close>

definition protocol_field ::
  "('c, 'ev, 'd, 's, 'x) CompileParams \<Rightarrow> ('c, 'ev) protocol_entry js_object" where
  "protocol_field params =
     object_literal
       (spread_opt declared_event
          (spread_opt declared_command
             (DAList.update ''init'' init_placeholder
                (DAList.update ''submit'' submit_placeholder DAList.empty))
             (commands params))
          (events params))"

text \<open>
  \<^verbatim>\<open>copyEmitters[k] = v\<close>, as \<^verbatim>\<open>Object.assign\<close> does it: an assignment in strict mode,
  not a definition. An own property is overwritten. Otherwise the prototype chain
  decides. With an emitter as prototype, what the emitter and its class have under the
  key comes first (a field of the host): a writable data property lets the own property
  be created, a read-only one or an accessor without setter makes the assignment throw,
  and a setter is called instead of creating a property. Below that is
  \<^verbatim>\<open>Object.prototype\<close>, whose only accessor is \<^verbatim>\<open>__proto__\<close>: its setter makes the
  value, an object, the prototype of \<^verbatim>\<open>copyEmitters\<close> and adds no own key. Under every
  other key the own property is created.
\<close>

definition set_property ::
  "'u vscode \<Rightarrow> string \<Rightarrow> EventEmitter \<Rightarrow> EventEmitter obj \<times> EventEmitter option
    \<Rightarrow> js_error + EventEmitter obj \<times> EventEmitter option" where
  "set_property vs k v target =
     (case target of
        (own, proto) \<Rightarrow>
          if DAList.lookup own k \<noteq> None then Inr (DAList.update k v own, proto)
          else (case (case proto of None \<Rightarrow> nothing | Some p \<Rightarrow> EventEmitter_property vs k) of
                  data_property writable \<Rightarrow>
                    if writable then Inr (DAList.update k v own, proto) else Inl TypeError
                | accessor setter \<Rightarrow> if setter then Inr (own, proto) else Inl TypeError
                | nothing \<Rightarrow>
                    if k = ''__proto__'' then Inr (own, Some v)
                    else Inr (DAList.update k v own, proto)))"

text \<open>\<^verbatim>\<open>Object.assign(target, src)\<close>: every own property of \<open>src\<close>, in order, is assigned.\<close>

fun assign_each ::
  "'u vscode \<Rightarrow> (string \<times> EventEmitter) list \<Rightarrow> EventEmitter obj \<times> EventEmitter option
    \<Rightarrow> js_error + EventEmitter obj \<times> EventEmitter option" where
  "assign_each vs [] target = Inr target"
| "assign_each vs ((k, v) # ps) target =
     (case set_property vs k v target of
        Inl err \<Rightarrow> Inl err
      | Inr target' \<Rightarrow> assign_each vs ps target')"

definition Object_assign ::
  "'u vscode \<Rightarrow> EventEmitter obj \<times> EventEmitter option \<Rightarrow> EventEmitter obj
    \<Rightarrow> js_error + EventEmitter obj \<times> EventEmitter option" where
  "Object_assign vs target src = assign_each vs (DAList.impl_of src) target"

text \<open>
  Lines 82 to 84: \<^verbatim>\<open>Object.keys(params.events ?? {}).forEach(k => Object.assign(copyEmitters,
  { [k]: new vscode.EventEmitter() }))\<close>, over the keys that are left. The computed key
  of the literal is an own key of it, whatever it is. An assignment that throws ends
  the loop and the constructor.
\<close>

fun copy_emitters ::
  "'u vscode \<Rightarrow> string list \<Rightarrow> EventEmitter obj \<times> EventEmitter option \<Rightarrow> heap
    \<Rightarrow> (js_error + EventEmitter obj \<times> EventEmitter option) \<times> heap" where
  "copy_emitters vs [] copyEmitters h = (Inr copyEmitters, h)"
| "copy_emitters vs (k # ks) copyEmitters h =
     (case new_EventEmitter h of
        (e, h') \<Rightarrow>
          (case Object_assign vs copyEmitters (DAList.update k e DAList.empty) of
             Inl err \<Rightarrow> (Inl err, h')
           | Inr copyEmitters' \<Rightarrow> copy_emitters vs ks copyEmitters' h'))"

text \<open>\<^verbatim>\<open>Object.keys(params.events ?? {})\<close>\<close>

definition declared_events :: "('c, 'ev, 'd, 's, 'x) CompileParams \<Rightarrow> string list" where
  "declared_events params = (case events params of None \<Rightarrow> [] | Some evs \<Rightarrow> Object_keys evs)"

text \<open>The constructor: the instance, or the error it throws, and the heap it leaves.\<close>

definition constructor ::
  "'u vscode \<Rightarrow> ('c, 'ev, 'd, 's, 'x) CompileParams \<Rightarrow> ExtContext \<Rightarrow> heap
    \<Rightarrow> (js_error + ('c, 'ev) VueWebview) \<times> heap" where
  "constructor vs params context h =
     (case copy_emitters vs (declared_events params) (DAList.empty, None) h of
        (Inl err, h') \<Rightarrow> (Inl err, h')
      | (Inr (copyEmitters, proto), h') \<Rightarrow>
          (Inr \<lparr>protocol = protocol_field params, emitters = copyEmitters,
                emitters_prototype = proto, context_w = context\<rparr>, h'))"

subsection \<open>\<^verbatim>\<open>show\<close> (lines 54 to 79): one session per call\<close>

text \<open>
  What \<^verbatim>\<open>registerWebviewServer\<close> receives under a key: the closures \<^verbatim>\<open>init\<close> (over
  \<^verbatim>\<open>data\<close>) and \<^verbatim>\<open>submit\<close> of this call, a declared command, or an emitter of the instance.
\<close>

datatype ('c, 'd) handler =
  builtin_init "'d option"
| builtin_submit
| command 'c
| emitter EventEmitter

text \<open>
  The two arguments of \<^verbatim>\<open>registerWebviewServer\<close>: the protocol object, and what
  \<^verbatim>\<open>Object.assign\<close> has put on the webview (its \<^verbatim>\<open>dispose\<close> is \<open>panel_dispose\<close> below).
\<close>

record ('c, 'd) WebviewServer =
  handlers :: "('c, 'd) handler obj"
  webview_context :: ExtContext
  webview_emitters :: "EventEmitter obj"
  webview_arguments :: "'d option"

text \<open>
  The state of one call of \<^verbatim>\<open>show\<close> once its promise has been created:
  \<^item> \<open>promise\<close>: \<open>None\<close> while pending, \<open>Some r\<close> once resolved with \<open>r\<close>, where \<open>r = None\<close>
    is \<^verbatim>\<open>undefined\<close>;
  \<^item> \<open>onDispose\<close>: the listener registered by \<^verbatim>\<open>panel.onDidDispose\<close> is still attached;
  \<^item> \<open>panel_disposed\<close>: the panel has been disposed;
  \<^item> \<open>server\<close>: what was registered with the messaging layer, if anything;
  \<^item> \<open>suspended\<close>: the calls of \<^verbatim>\<open>submit\<close> that wait at \<^verbatim>\<open>await validate\<close> for a promise
    of the hook, each with its response and with what the promise will settle to.
\<close>

record ('c, 'd, 's, 'x, 'u) session =
  panel :: "'u WebviewPanel"
  panel_disposed :: bool
  onDispose :: bool
  promise :: "'s option option"
  server :: "('c, 'd) WebviewServer option"
  suspended :: "('s \<times> 'x awaited) list"

text \<open>\<^verbatim>\<open>resolve(r)\<close> of a promise: the first call settles it, every later call does nothing.\<close>

definition resolve ::
  "'s option \<Rightarrow> ('c, 'd, 's, 'x, 'u) session \<Rightarrow> ('c, 'd, 's, 'x, 'u) session" where
  "resolve r st = (case promise st of None \<Rightarrow> st\<lparr>promise := Some r\<rparr> | Some _ \<Rightarrow> st)"

text \<open>
  \<^verbatim>\<open>panel.dispose()\<close>, and the user closing the panel: the panel is disposed once, and
  its disposal runs the listener of line 58, \<^verbatim>\<open>() => resolve(undefined)\<close>, if it is still
  attached.
\<close>

definition panel_dispose ::
  "('c, 'd, 's, 'x, 'u) session \<Rightarrow> ('c, 'd, 's, 'x, 'u) session" where
  "panel_dispose st =
     (if panel_disposed st then st
      else let st' = st\<lparr>panel_disposed := True\<rparr>
           in if onDispose st' then resolve None st' else st')"

text \<open>Lines 64 to 66, the body of the \<^verbatim>\<open>if\<close> in \<^verbatim>\<open>submit\<close>.\<close>

definition submit_accept ::
  "'s \<Rightarrow> ('c, 'd, 's, 'x, 'u) session \<Rightarrow> ('c, 'd, 's, 'x, 'u) session" where
  "submit_accept response st =
     resolve (Some response) (panel_dispose (st\<lparr>onDispose := False\<rparr>))"

text \<open>What a remote call, or another event, gives back to the messaging layer.\<close>

datatype ('c, 'd, 'x) reply =
  no_handler
| returned
| returned_data "'d option"
| rejected 'x
| awaiting
| ran_command 'c
| is_emitter EventEmitter

text \<open>
  Lines 61 to 68 up to the \<^verbatim>\<open>await\<close>. With no hook \<^verbatim>\<open>validate\<close> is \<^verbatim>\<open>undefined\<close>, and a
  hook may return \<^verbatim>\<open>false\<close>: the condition is false without awaiting. A truthy value that
  is not a promise is awaited for one microtask, before any other event, and the body
  runs. A promise suspends the call until it settles.
\<close>

definition submit ::
  "('c, 'ev, 'd, 's, 'x) CompileParams \<Rightarrow> 's \<Rightarrow> ('c, 'd, 's, 'x, 'u) session
    \<Rightarrow> ('c, 'd, 'x) reply \<times> ('c, 'd, 's, 'x, 'u) session" where
  "submit params response st =
     (case validateSubmit params of
        None \<Rightarrow> (returned, st)
      | Some hook \<Rightarrow>
          (case hook response of
             Throws e \<Rightarrow> (rejected e, st)
           | Value b \<Rightarrow> if b then (returned, submit_accept response st) else (returned, st)
           | Promise a \<Rightarrow> (awaiting, st\<lparr>suspended := suspended st @ [(response, a)]\<rparr>)))"

text \<open>The rest of \<^verbatim>\<open>submit\<close>, when the promise of the \<open>i\<close>-th suspended call settles.\<close>

definition submit_resume ::
  "nat \<Rightarrow> ('c, 'd, 's, 'x, 'u) session \<Rightarrow> ('c, 'd, 'x) reply \<times> ('c, 'd, 's, 'x, 'u) session" where
  "submit_resume i st =
     (if i < length (suspended st) then
        (case suspended st ! i of
           (response, a) \<Rightarrow>
             let st' = st\<lparr>suspended := take i (suspended st) @ drop (Suc i) (suspended st)\<rparr>
             in (case a of
                   Rejects e \<Rightarrow> (rejected e, st')
                 | Fulfils b \<Rightarrow>
                     if b then (returned, submit_accept response st') else (returned, st')))
      else (no_handler, st))"

text \<open>
  A remote call of the command \<open>key\<close> with argument \<open>arg\<close>, as the messaging layer
  dispatches it: to the handler registered under that key. A declared command is the
  extension's own code and an emitter is not called; neither touches the session here
  (a command that disposes the webview is the event \<open>panel_closed\<close>).
\<close>

definition remote_call ::
  "('c, 'ev, 'd, 's, 'x) CompileParams \<Rightarrow> string \<Rightarrow> 's \<Rightarrow> ('c, 'd, 's, 'x, 'u) session
    \<Rightarrow> ('c, 'd, 'x) reply \<times> ('c, 'd, 's, 'x, 'u) session" where
  "remote_call params key arg st =
     (case server st of
        None \<Rightarrow> (no_handler, st)
      | Some srv \<Rightarrow>
          (case DAList.lookup (handlers srv) key of
             None \<Rightarrow> (no_handler, st)
           | Some (builtin_init data) \<Rightarrow> (returned_data data, st)
           | Some builtin_submit \<Rightarrow> submit params arg st
           | Some (command c) \<Rightarrow> (ran_command c, st)
           | Some (emitter e) \<Rightarrow> (is_emitter e, st)))"

text \<open>
  The events of a session, in the order the single event loop runs them: the panel is
  disposed (closed by the user, or through the webview's \<^verbatim>\<open>dispose\<close>), the UI calls a
  command, the promise of a suspended \<^verbatim>\<open>submit\<close> settles.
\<close>

datatype 's event = panel_closed | call string 's | settled nat

fun step ::
  "('c, 'ev, 'd, 's, 'x) CompileParams \<Rightarrow> 's event \<Rightarrow> ('c, 'd, 's, 'x, 'u) session
    \<Rightarrow> ('c, 'd, 'x) reply \<times> ('c, 'd, 's, 'x, 'u) session" where
  "step params panel_closed st = (returned, panel_dispose st)"
| "step params (call key arg) st = remote_call params key arg st"
| "step params (settled i) st = submit_resume i st"

definition run ::
  "('c, 'ev, 'd, 's, 'x) CompileParams \<Rightarrow> 's event list \<Rightarrow> ('c, 'd, 's, 'x, 'u) session
    \<Rightarrow> ('c, 'd, 's, 'x, 'u) session" where
  "run params evs st = fold (\<lambda>ev s. snd (step params ev s)) evs st"

text \<open>Line 76: the protocol object \<^verbatim>\<open>{ init, submit, ...params.commands, ...this.emitters }\<close>.\<close>

definition registered ::
  "'c obj \<Rightarrow> EventEmitter obj \<Rightarrow> 'd option \<Rightarrow> ('c, 'd) handler obj" where
  "registered cmds ems data =
     spread emitter
       (spread command
          (DAList.update ''submit'' builtin_submit
             (DAList.update ''init'' (builtin_init data) DAList.empty))
          cmds)
       ems"

text \<open>
  Lines 57 to 78, the executor of the promise \<^verbatim>\<open>show\<close> returns: the listener is attached
  and, when the description has commands (an object, also an empty one, is truthy), the
  protocol object is registered.
\<close>

definition executor ::
  "('c, 'ev, 'd, 's, 'x) CompileParams \<Rightarrow> ('c, 'ev) VueWebview \<Rightarrow> 'd option \<Rightarrow> 'u WebviewPanel
    \<Rightarrow> ('c, 'd, 's, 'x, 'u) session" where
  "executor params this data pnl =
     (let st = \<lparr>panel = pnl, panel_disposed = False, onDispose = True,
                promise = None, server = None, suspended = []\<rparr>
      in case commands params of
           None \<Rightarrow> st
         | Some cmds \<Rightarrow>
             st\<lparr>server := Some
               \<lparr>handlers = registered cmds (emitters this) data,
                webview_context = context_w this,
                webview_emitters = emitters this,
                webview_arguments = data\<rparr>\<rparr>)"

text \<open>
  \<^verbatim>\<open>show\<close>: the hook \<^verbatim>\<open>validateData\<close> is awaited and its value dropped, the panel is
  created, and the promise is made from the executor. A rejection of the promise of
  \<^verbatim>\<open>show\<close> itself is \<open>Inl\<close>; otherwise the session starts.
\<close>

definition show_webview ::
  "'u vscode \<Rightarrow> ('c, 'ev, 'd, 's, 'x) CompileParams \<Rightarrow> ('c, 'ev) VueWebview \<Rightarrow> 'd option
    \<Rightarrow> 'u window \<Rightarrow> ('x + ('c, 'd, 's, 'x, 'u) session) \<times> 'u window" where
  "show_webview vs params this data w =
     (case await_call (map_option (\<lambda>hook. hook data) (validateData params)) of
        Inl e \<Rightarrow> (Inl e, w)
      | Inr _ \<Rightarrow>
          (case createVueWebview vs params (context_w this) w of
             (pnl, w') \<Rightarrow> (Inr (executor params this data pnl), w')))"

subsection \<open>Sessions that are still open\<close>

text \<open>
  While the promise is pending the listener is attached and the panel is not disposed:
  the state every session starts in and every event keeps.
\<close>

definition open_session :: "('c, 'd, 's, 'x, 'u) session \<Rightarrow> bool" where
  "open_session st = (if promise st = None then onDispose st \<and> \<not> panel_disposed st else True)"

subsection \<open>An example description\<close>

text \<open>
  The description \<^verbatim>\<open>{id: "w1", name: "Test", webviewJs: "main.js", commands: {ping},
  events: {}, validateSubmit: r => r === "ok"}\<close>, a host with textual URIs, and a session
  of it.
\<close>

definition example_vscode :: "string vscode" where
  \<open>example_vscode =
     \<lparr>isCloud9 = False, WEBPACK_DEVELOPER_SERVER = None,
      path_join = (\<lambda>ps. concat (map (\<lambda>p. ''/'' @ p) ps)),
      Uri_file = (\<lambda>p. ''file://'' @ p),
      Uri_parse = (\<lambda>s. s),
      Uri_toString = (\<lambda>u. u),
      Uri_with_path = (\<lambda>u p. u @ p),
      asWebviewUri = (\<lambda>u. ''vscode-resource:'' @ u),
      webview_cspSource = ''vscode-resource:'',
      getFilesAsVsCodeResources = (\<lambda>d fs. map (\<lambda>f. ''vscode-resource:'' @ d @ ''/'' @ f) fs),
      EventEmitter_property =
        (\<lambda>k. if k = ''event'' then accessor False
             else if k = ''fire'' \<or> k = ''dispose'' then data_property True
             else nothing)\<rparr>\<close>

text \<open>The same host with the development server set, and parameters of a document.\<close>

definition example_vscode_dev :: "string vscode" where
  "example_vscode_dev = example_vscode\<lparr>WEBPACK_DEVELOPER_SERVER := Some ''http://localhost:9000''\<rparr>"

definition example_html :: "string HtmlParams" where
  "example_html =
     \<lparr>scripts = ''S'', stylesheets = ''T'', cspSource = ''vscode-resource:'',
      webviewJs' = ''main.js'', main = ''vscode-resource:/ext/dist/main.js''\<rparr>"

definition example_context :: ExtContext where
  "example_context = \<lparr>extensionPath = ''ext''\<rparr>"

definition example_params :: "(nat, nat, nat, string, nat) CompileParams" where
  "example_params =
     \<lparr>id_w = ''w1'', name = ''Test'', webviewJs = ''main.js'', persistWithoutFocus = None,
      cssFiles = None, libFiles = None,
      commands = Some (DAList.update ''ping'' 7 DAList.empty),
      events = Some DAList.empty,
      validateData = None,
      validateSubmit = Some (\<lambda>r. Value (r = ''ok''))\<rparr>"

text \<open>The same description with two declared events.\<close>

definition example_params_events :: "(nat, nat, nat, string, nat) CompileParams" where
  "example_params_events =
     example_params\<lparr>events := Some (DAList.update ''b'' 3 (DAList.update ''a'' 2 DAList.empty))\<rparr>"

text \<open>The same description with a hook that answers through a promise.\<close>

definition example_params_async :: "(nat, nat, nat, string, nat) CompileParams" where
  "example_params_async =
     example_params\<lparr>validateSubmit := Some (\<lambda>r. Promise (Fulfils (r = ''ok'')))\<rparr>"

text \<open>The same description with the one declared event \<^verbatim>\<open>__proto__\<close>.\<close>

definition example_params_proto :: "(nat, nat, nat, string, nat) CompileParams" where
  "example_params_proto =
     example_params\<lparr>events := Some (DAList.update ''__proto__'' 2 DAList.empty)\<rparr>"

text \<open>The instance the constructor makes of the example description.\<close>

definition example_webview :: "(nat, nat) VueWebview" where
  "example_webview =
     \<lparr>protocol = protocol_field example_params, emitters = DAList.empty,
      emitters_prototype = None, context_w = example_context\<rparr>"

definition example_panel :: "string WebviewPanel" where
  "example_panel = fst (createVueWebview example_vscode example_params example_context [])"

definition example_session :: "(nat, nat, string, nat, string) session" where
  "example_session = executor example_params example_webview None example_panel"

section \<open>Properties\<close>

subsection \<open>Objects\<close>

lemma lookup_fold_update:
  "distinct (map fst xs) \<Longrightarrow>
   DAList.lookup (fold (\<lambda>(k, v). DAList.update k (f v)) xs t) =
   DAList.lookup t ++ (map_option f \<circ> map_of xs)"
proof (induction xs arbitrary: t)
  case Nil
  then show ?case by (simp add: fun_eq_iff map_add_def)
next
  case (Cons p xs)
  obtain k v where p: "p = (k, v)" by (cases p)
  from Cons.prems p have nk: "map_of xs k = None" and d: "distinct (map fst xs)"
    by (auto simp: map_of_eq_None_iff)
  show ?case
    using nk by (auto simp: p Cons.IH [OF d] DAList.lookup_update fun_eq_iff map_add_def split: option.splits)
qed

lemma lookup_spread:
  "DAList.lookup (spread f t s) = DAList.lookup t ++ (map_option f \<circ> DAList.lookup s)"
proof -
  have "distinct (map fst (DAList.impl_of s))" by simp
  from lookup_fold_update [OF this, of f t] show ?thesis
    unfolding spread_def by (simp add: DAList.lookup.rep_eq)
qed

lemma lookup_spread_opt:
  "DAList.lookup (spread_opt f t s) k =
     (case Option.bind s (\<lambda>ob. DAList.lookup ob k) of
        Some v \<Rightarrow> Some (f v) | None \<Rightarrow> DAList.lookup t k)"
  by (cases s) (auto simp: spread_opt_def lookup_spread map_add_def split: option.splits)

lemma update_fresh_key: "k \<notin> fst ` set al \<Longrightarrow> AList.update k v al = al @ [(k, v)]"
  by (induction al) auto

subsection \<open>The \<^verbatim>\<open>protocol\<close> field\<close>

lemma protocol_constructor:
  "fst (constructor vs params context h) = Inr this \<Longrightarrow> protocol this = protocol_field params"
  by (auto simp: constructor_def split: prod.splits sum.splits)

lemma lookup_protocol_field:
  "DAList.lookup (properties (protocol_field params)) k =
     (case Option.bind (events params) (\<lambda>ob. DAList.lookup ob k) of
        Some ev \<Rightarrow> Some (declared_event ev)
      | None \<Rightarrow>
          (case Option.bind (commands params) (\<lambda>ob. DAList.lookup ob k) of
             Some c \<Rightarrow> Some (declared_command c)
           | None \<Rightarrow>
               if k = ''submit'' then Some submit_placeholder
               else if k = ''init'' then Some init_placeholder
               else None))"
  by (simp add: protocol_field_def object_literal_def lookup_spread_opt DAList.lookup_update
      split: option.splits)

text \<open>
  Claim C9, amended. The \<^verbatim>\<open>protocol\<close> field of every instance is the same merge,
  fixed by the description alone: under a key it holds the declared event of that key
  if there is one, else the declared command of that key if there is one, else the
  placeholder for \<^verbatim>\<open>submit\<close> or \<^verbatim>\<open>init\<close>, and nothing under any other key. Declared
  entries override the built-ins. The object is an ordinary one: it is not frozen.
\<close>

theorem protocol_is_unfrozen_merge:
  "fst (constructor vs params context h) = Inr this \<Longrightarrow>
   protocol this = protocol_field params \<and>
   \<not> frozen (protocol this) \<and>
   DAList.lookup (properties (protocol this)) k =
     (case Option.bind (events params) (\<lambda>ob. DAList.lookup ob k) of
        Some ev \<Rightarrow> Some (declared_event ev)
      | None \<Rightarrow>
          (case Option.bind (commands params) (\<lambda>ob. DAList.lookup ob k) of
             Some c \<Rightarrow> Some (declared_command c)
           | None \<Rightarrow>
               if k = ''submit'' then Some submit_placeholder
               else if k = ''init'' then Some init_placeholder
               else None))"
proof -
  assume "fst (constructor vs params context h) = Inr this"
  then have p: "protocol this = protocol_field params" by (rule protocol_constructor)
  have "\<not> frozen (protocol_field params)"
    by (simp add: protocol_field_def object_literal_def)
  with p show ?thesis by (simp add: lookup_protocol_field)
qed

lemma example_constructed:
  "constructor example_vscode example_params example_context 0 = (Inr example_webview, 0)"
  by (simp add: constructor_def declared_events_def example_params_def Object_keys_def
      DAList.empty.rep_eq example_webview_def)

theorem protocol_is_unfrozen_merge_witness:
  "fst (constructor example_vscode example_params example_context 0) = Inr example_webview \<and>
   \<not> frozen (protocol example_webview) \<and>
   DAList.lookup (properties (protocol example_webview)) ''ping'' = Some (declared_command 7) \<and>
   DAList.lookup (properties (protocol example_webview)) ''init'' = Some init_placeholder"
proof -
  have c: "fst (constructor example_vscode example_params example_context 0) = Inr example_webview"
    by (simp add: example_constructed)
  have e: "events example_params = Some DAList.empty"
    and m: "commands example_params = Some (DAList.update ''ping'' 7 DAList.empty)"
    by (simp_all add: example_params_def)
  from protocol_is_unfrozen_merge [OF c, of "''ping''"]
  have a: "\<not> frozen (protocol example_webview) \<and>
      DAList.lookup (properties (protocol example_webview)) ''ping'' = Some (declared_command 7)"
    by (auto simp: e m DAList.lookup_update)
  from protocol_is_unfrozen_merge [OF c, of "''init''"]
  have b: "DAList.lookup (properties (protocol example_webview)) ''init'' = Some init_placeholder"
    by (auto simp: e m DAList.lookup_update)
  from a b c show ?thesis by blast
qed

text \<open>
  Claim C9 as stated fails: the field is not frozen. Nothing in lines 47 to 52 freezes
  the object literal, so a write to it succeeds and replaces a built-in.
\<close>

theorem protocol_not_frozen_counterexample:
  "fst (constructor example_vscode example_params example_context 0) = Inr example_webview \<and>
   \<not> frozen (protocol example_webview) \<and>
   DAList.lookup (properties (protocol example_webview)) ''submit'' = Some submit_placeholder \<and>
   (case put_property ''submit'' (declared_command 9) (protocol example_webview) of
      Inl err \<Rightarrow> False
    | Inr ob \<Rightarrow> DAList.lookup (properties ob) ''submit'' = Some (declared_command 9))"
proof -
  have e: "events example_params = Some DAList.empty"
    and m: "commands example_params = Some (DAList.update ''ping'' 7 DAList.empty)"
    by (simp_all add: example_params_def)
  have p: "protocol example_webview = protocol_field example_params"
    by (simp add: example_webview_def)
  have f: "\<not> frozen (protocol_field example_params)"
    by (simp add: protocol_field_def object_literal_def)
  have s: "DAList.lookup (properties (protocol_field example_params)) ''submit''
      = Some submit_placeholder"
    by (simp add: lookup_protocol_field e m DAList.lookup_update)
  from f have "put_property ''submit'' (declared_command 9) (protocol_field example_params) =
      Inr (protocol_field example_params
        \<lparr>properties := DAList.update ''submit'' (declared_command 9)
           (properties (protocol_field example_params))\<rparr>)"
    by (simp add: put_property_def)
  with f s show ?thesis by (simp add: example_constructed p)
qed

subsection \<open>The emitters of an instance\<close>

lemma Object_assign_singleton:
  "Object_assign vs target (DAList.update k e DAList.empty) = set_property vs k e target"
  by (cases "set_property vs k e target")
    (simp_all add: Object_assign_def DAList.update.rep_eq DAList.empty.rep_eq)

lemma set_property_fresh:
  "k \<notin> fst ` set (DAList.impl_of own) \<Longrightarrow> k \<noteq> ''__proto__'' \<Longrightarrow>
   set_property vs k v (own, None) = Inr (DAList.update k v own, None)"
  by (simp add: set_property_def DAList.lookup.rep_eq map_of_eq_None_iff)

lemma copy_emitters_zip:
  "distinct ks \<Longrightarrow> set ks \<inter> fst ` set (DAList.impl_of acc) = {} \<Longrightarrow> ''__proto__'' \<notin> set ks \<Longrightarrow>
   \<exists>ce. copy_emitters vs ks (acc, None) h = (Inr (ce, None), h + length ks) \<and>
        DAList.impl_of ce = DAList.impl_of acc @ zip ks [h..<h + length ks]"
proof (induction ks arbitrary: acc h)
  case Nil
  then show ?case by simp
next
  case (Cons k ks)
  let ?acc = "DAList.update k h acc"
  from Cons.prems have k: "k \<notin> fst ` set (DAList.impl_of acc)" "k \<noteq> ''__proto__''" by auto
  then have acc': "DAList.impl_of ?acc = DAList.impl_of acc @ [(k, h)]"
    by (simp add: DAList.update.rep_eq update_fresh_key)
  have step: "copy_emitters vs (k # ks) (acc, None) h = copy_emitters vs ks (?acc, None) (Suc h)"
    using k by (simp add: new_EventEmitter_def Object_assign_singleton set_property_fresh)
  from Cons.prems acc'
  have "distinct ks" "set ks \<inter> fst ` set (DAList.impl_of ?acc) = {}" "''__proto__'' \<notin> set ks"
    by auto
  from Cons.IH [OF this, of "Suc h"]
  obtain ce where ce: "copy_emitters vs ks (?acc, None) (Suc h) = (Inr (ce, None), Suc h + length ks)"
    "DAList.impl_of ce = DAList.impl_of ?acc @ zip ks [Suc h..<Suc h + length ks]"
    by blast
  have "[h..<h + length (k # ks)] = h # [Suc h..<Suc h + length ks]"
    by (simp del: upt_Suc add: upt_conv_Cons)
  with ce acc' step show ?case by simp
qed

lemma constructor_emitters:
  assumes "''__proto__'' \<notin> set (declared_events params)"
  shows "\<exists>this. constructor vs params context h
             = (Inr this, h + length (declared_events params)) \<and>
           DAList.impl_of (emitters this) =
             zip (declared_events params) [h..<h + length (declared_events params)]"
proof -
  have d: "distinct (declared_events params)"
    by (simp add: declared_events_def Object_keys_def split: option.splits)
  from copy_emitters_zip [OF d _ assms, of DAList.empty vs h]
  obtain ce where "copy_emitters vs (declared_events params) (DAList.empty, None) h
        = (Inr (ce, None), h + length (declared_events params))"
    "DAList.impl_of ce = zip (declared_events params) [h..<h + length (declared_events params)]"
    by (auto simp: DAList.empty.rep_eq)
  then show ?thesis by (simp add: constructor_def)
qed

text \<open>
  Claim C6, amended. For a description whose event map has no key \<^verbatim>\<open>__proto__\<close>, the
  constructor returns an instance with one emitter per declared event key, in the
  order of the keys, so exactly as many emitters as keys; its emitters are the objects
  allocated by its own constructor call (the addresses from the heap the call started
  with), all different; and an instance constructed later, in a heap the first call has
  left or a later one, shares no emitter with it.
\<close>

theorem emitters_fresh_per_instance:
  assumes "''__proto__'' \<notin> set (declared_events params)"
    and "snd (constructor vs params c1 h1) \<le> h2"
  shows "let N = length (declared_events params)
         in \<exists>i1 i2.
              constructor vs params c1 h1 = (Inr i1, h1 + N) \<and>
              constructor vs params c2 h2 = (Inr i2, h2 + N) \<and>
              Object_keys (emitters i1) = declared_events params \<and>
              length (Object_values (emitters i1)) = N \<and>
              Object_values (emitters i1) = [h1..<h1 + N] \<and>
              Object_values (emitters i2) = [h2..<h2 + N] \<and>
              distinct (Object_values (emitters i1)) \<and>
              set (Object_values (emitters i1)) \<inter> set (Object_values (emitters i2)) = {}"
proof -
  let ?N = "length (declared_events params)"
  from constructor_emitters [OF assms(1), of vs c1 h1]
  obtain i1 where i1: "constructor vs params c1 h1 = (Inr i1, h1 + ?N)"
    "DAList.impl_of (emitters i1) = zip (declared_events params) [h1..<h1 + ?N]"
    by blast
  from constructor_emitters [OF assms(1), of vs c2 h2]
  obtain i2 where i2: "constructor vs params c2 h2 = (Inr i2, h2 + ?N)"
    "DAList.impl_of (emitters i2) = zip (declared_events params) [h2..<h2 + ?N]"
    by blast
  from assms(2) i1(1) have "h1 + ?N \<le> h2" by simp
  then have "set [h1..<h1 + ?N] \<inter> set [h2..<h2 + ?N] = {}" by auto
  with i1 i2 show ?thesis
    unfolding Let_def
    by (intro exI [of _ i1] exI [of _ i2]) (simp add: Object_keys_def Object_values_def)
qed

lemma declared_events_two: "declared_events example_params_events = [''a'', ''b'']"
  by (simp add: example_params_events_def declared_events_def Object_keys_def
      DAList.update.rep_eq DAList.empty.rep_eq)

theorem emitters_fresh_per_instance_witness:
  "''__proto__'' \<notin> set (declared_events example_params_events) \<and>
   snd (constructor example_vscode example_params_events example_context 0) \<le> 2 \<and>
   (\<exists>i1 i2.
      constructor example_vscode example_params_events example_context 0 = (Inr i1, 2) \<and>
      constructor example_vscode example_params_events example_context 2 = (Inr i2, 4) \<and>
      Object_keys (emitters i1) = [''a'', ''b''] \<and>
      Object_values (emitters i1) = [0, 1] \<and>
      Object_values (emitters i2) = [2, 3] \<and>
      set (Object_values (emitters i1)) \<inter> set (Object_values (emitters i2)) = {})"
proof -
  have p: "''__proto__'' \<notin> set (declared_events example_params_events)"
    by (simp add: declared_events_two)
  from constructor_emitters [OF p, of example_vscode example_context 0]
  have s: "snd (constructor example_vscode example_params_events example_context 0) \<le> 2"
    by (auto simp: declared_events_two)
  from emitters_fresh_per_instance [OF p s, of example_context]
  obtain i1 i2 where
    "constructor example_vscode example_params_events example_context 0 = (Inr i1, 2)"
    "constructor example_vscode example_params_events example_context 2 = (Inr i2, 4)"
    "Object_keys (emitters i1) = [''a'', ''b'']"
    "Object_values (emitters i1) = [0, 1]"
    "Object_values (emitters i2) = [2, 3]"
    "set (Object_values (emitters i1)) \<inter> set (Object_values (emitters i2)) = {}"
    by (auto simp: Let_def declared_events_two eval_nat_numeral)
  with p s show ?thesis by blast
qed

text \<open>
  Claim C6 as stated fails for an event map with the key \<^verbatim>\<open>__proto__\<close>: line 83
  assigns the new emitter with \<^verbatim>\<open>Object.assign\<close>, the assignment runs the setter of
  \<^verbatim>\<open>Object.prototype\<close>, and the emitter becomes the prototype of the \<^verbatim>\<open>emitters\<close> object
  instead of a property of it. One key is declared, and the instance has no emitter.
\<close>

theorem proto_key_counterexample:
  "declared_events example_params_proto = [''__proto__''] \<and>
   constructor example_vscode example_params_proto example_context 0 =
     (Inr \<lparr>protocol = protocol_field example_params_proto, emitters = DAList.empty,
           emitters_prototype = Some 0, context_w = example_context\<rparr>, 1) \<and>
   Object_keys (emitters
     \<lparr>protocol = protocol_field example_params_proto, emitters = DAList.empty,
      emitters_prototype = Some 0, context_w = example_context\<rparr>) = [] \<and>
   length (Object_values (emitters
     \<lparr>protocol = protocol_field example_params_proto, emitters = DAList.empty,
      emitters_prototype = Some 0, context_w = example_context\<rparr>))
     \<noteq> length (declared_events example_params_proto)"
proof -
  have d: "declared_events example_params_proto = [''__proto__'']"
    by (simp add: example_params_proto_def declared_events_def Object_keys_def
        DAList.update.rep_eq DAList.empty.rep_eq)
  then show ?thesis
    by (simp add: constructor_def new_EventEmitter_def Object_assign_singleton set_property_def
        Object_keys_def Object_values_def DAList.empty.rep_eq)
qed

subsection \<open>Single steps of a session\<close>

lemma promise_resolve: "promise (resolve r st) = (case promise st of None \<Rightarrow> Some r | Some r' \<Rightarrow> Some r')"
  by (simp add: resolve_def split: option.splits)

lemma promise_panel_dispose:
  "promise (panel_dispose st) =
     (if promise st = None \<and> \<not> panel_disposed st \<and> onDispose st then Some None else promise st)"
  by (simp add: panel_dispose_def Let_def promise_resolve split: option.splits)

lemma promise_submit_accept:
  "promise (submit_accept v st) = (case promise st of None \<Rightarrow> Some (Some v) | Some r \<Rightarrow> Some r)"
  by (auto simp: submit_accept_def panel_dispose_def Let_def resolve_def split: option.splits)

lemma resolve_fields [simp]:
  "server (resolve r st) = server st"
  "suspended (resolve r st) = suspended st"
  "onDispose (resolve r st) = onDispose st"
  "panel_disposed (resolve r st) = panel_disposed st"
  by (simp_all add: resolve_def split: option.splits)

lemma panel_dispose_fields [simp]:
  "server (panel_dispose st) = server st"
  "suspended (panel_dispose st) = suspended st"
  "onDispose (panel_dispose st) = onDispose st"
  "panel_disposed (panel_dispose st) = True"
  by (simp_all add: panel_dispose_def Let_def)

lemma submit_accept_fields [simp]:
  "server (submit_accept v st) = server st"
  "suspended (submit_accept v st) = suspended st"
  "onDispose (submit_accept v st) = False"
  "panel_disposed (submit_accept v st) = True"
  by (simp_all add: submit_accept_def)

lemma server_submit [simp]: "server (snd (submit params v st)) = server st"
  by (simp add: submit_def split: option.splits hook_result.splits)

lemma server_submit_resume [simp]: "server (snd (submit_resume i st)) = server st"
  by (simp add: submit_resume_def Let_def split: prod.splits awaited.splits)

lemma server_remote_call [simp]: "server (snd (remote_call params key arg st)) = server st"
  by (simp add: remote_call_def split: option.splits handler.splits)

lemma settled_stays_submit: "promise st = Some r \<Longrightarrow> promise (snd (submit params v st)) = Some r"
  by (simp add: submit_def promise_submit_accept split: option.splits hook_result.splits)

lemma settled_stays_submit_resume:
  "promise st = Some r \<Longrightarrow> promise (snd (submit_resume i st)) = Some r"
  by (simp add: submit_resume_def Let_def promise_submit_accept split: prod.splits awaited.splits)

lemma settled_stays_remote_call:
  "promise st = Some r \<Longrightarrow> promise (snd (remote_call params key arg st)) = Some r"
  by (simp add: remote_call_def settled_stays_submit split: option.splits handler.splits)

lemma settled_stays_step: "promise st = Some r \<Longrightarrow> promise (snd (step params ev st)) = Some r"
  by (cases ev)
    (simp_all add: promise_panel_dispose settled_stays_remote_call settled_stays_submit_resume)

lemma run_append: "run params (evs1 @ evs2) st = run params evs2 (run params evs1 st)"
  by (simp add: run_def)

lemma settled_stays_run: "promise st = Some r \<Longrightarrow> promise (run params evs st) = Some r"
proof (induction evs arbitrary: st)
  case Nil
  then show ?case by (simp add: run_def)
next
  case (Cons ev evs)
  from Cons.prems have "promise (snd (step params ev st)) = Some r" by (rule settled_stays_step)
  from Cons.IH [OF this] show ?case by (simp add: run_def)
qed

lemma dispose_after_accept: "panel_dispose (submit_accept v st) = submit_accept v st"
  by (simp add: panel_dispose_def)

subsection \<open>What is registered\<close>

lemma lookup_registered:
  "DAList.lookup (registered cmds ems data) k =
     (case DAList.lookup ems k of
        Some e \<Rightarrow> Some (emitter e)
      | None \<Rightarrow>
          (case DAList.lookup cmds k of
             Some c \<Rightarrow> Some (command c)
           | None \<Rightarrow>
               if k = ''init'' then Some (builtin_init data)
               else if k = ''submit'' then Some builtin_submit
               else None))"
  by (simp add: registered_def lookup_spread map_add_def DAList.lookup_update split: option.splits)

lemma server_executor:
  "commands params = Some cmds \<Longrightarrow>
   server (executor params this data pnl) =
     Some \<lparr>handlers = registered cmds (emitters this) data, webview_context = context_w this,
           webview_emitters = emitters this, webview_arguments = data\<rparr>"
  by (simp add: executor_def)

lemma server_executor_None: "commands params = None \<Longrightarrow> server (executor params this data pnl) = None"
  by (simp add: executor_def)

lemma server_executor_Some: "commands params = Some cmds \<Longrightarrow> \<exists>srv. server (executor params this data pnl) = Some srv"
  by (simp add: executor_def)

subsection \<open>The example session\<close>

lemma example_server:
  "server example_session =
     Some \<lparr>handlers = registered (DAList.update ''ping'' 7 DAList.empty) (emitters example_webview) None,
           webview_context = context_w example_webview,
           webview_emitters = emitters example_webview, webview_arguments = None\<rparr>"
  by (simp add: example_session_def executor_def example_params_def)

lemma example_emitters: "DAList.lookup (emitters example_webview) k = None"
  by (simp add: example_webview_def)

lemma example_promise: "promise example_session = None"
  by (simp add: example_session_def executor_def example_params_def)

lemma example_call_submit:
  "remote_call example_params ''submit'' v example_session =
     (returned, if v = ''ok'' then submit_accept v example_session else example_session)"
  by (simp add: remote_call_def example_server lookup_registered example_emitters
      DAList.lookup_update submit_def example_params_def)

subsection \<open>The promise is resolved once\<close>

text \<open>
  Claim C2. Once the promise of a session is resolved with \<open>r\<close>, after any events
  \<open>evs1\<close>, it is resolved with \<open>r\<close> after any further events \<open>evs2\<close>, disposals and calls
  of \<^verbatim>\<open>submit\<close> alike. In particular a disposal that arrives after a successful
  \<^verbatim>\<open>submit\<close> changes nothing at all: the listener is gone and the panel already disposed.
\<close>

theorem resolved_at_most_once:
  "promise (run params evs1 st) = Some r \<Longrightarrow>
   promise (run params (evs1 @ evs2) st) = Some r \<and>
   snd (step params panel_closed (submit_accept v st)) = submit_accept v st"
  by (simp add: run_append settled_stays_run dispose_after_accept)

theorem resolved_at_most_once_witness:
  "promise (run example_params [call ''submit'' ''ok''] example_session) = Some (Some ''ok'') \<and>
   promise (run example_params ([call ''submit'' ''ok''] @ [panel_closed]) example_session)
     = Some (Some ''ok'')"
  using resolved_at_most_once
    [of example_params "[call ''submit'' ''ok'']" example_session "Some ''ok''" "[panel_closed]"]
  by (simp add: run_def example_call_submit promise_submit_accept example_promise)

subsection \<open>Open sessions\<close>

lemma open_executor: "open_session (executor params this data pnl)"
  by (simp add: open_session_def executor_def Let_def split: option.splits)

lemma open_panel_dispose: "open_session st \<Longrightarrow> open_session (panel_dispose st)"
  by (simp add: open_session_def promise_panel_dispose split: if_splits)

lemma open_submit_accept: "open_session (submit_accept v st)"
  by (simp add: open_session_def promise_submit_accept split: option.splits)

lemma open_suspended: "open_session st \<Longrightarrow> open_session (st\<lparr>suspended := q\<rparr>)"
  by (simp add: open_session_def)

lemma open_submit: "open_session st \<Longrightarrow> open_session (snd (submit params v st))"
  by (simp add: submit_def open_submit_accept open_suspended split: option.splits hook_result.splits)

lemma open_submit_resume: "open_session st \<Longrightarrow> open_session (snd (submit_resume i st))"
  by (simp add: submit_resume_def Let_def open_submit_accept open_suspended
      split: prod.splits awaited.splits)

lemma open_remote_call: "open_session st \<Longrightarrow> open_session (snd (remote_call params key arg st))"
  by (simp add: remote_call_def open_submit split: option.splits handler.splits)

lemma open_step: "open_session st \<Longrightarrow> open_session (snd (step params ev st))"
  by (cases ev) (simp_all add: open_panel_dispose open_remote_call open_submit_resume)

lemma open_run: "open_session st \<Longrightarrow> open_session (run params evs st)"
proof (induction evs arbitrary: st)
  case Nil
  then show ?case by (simp add: run_def)
next
  case (Cons ev evs)
  from Cons.prems have "open_session (snd (step params ev st))" by (rule open_step)
  from Cons.IH [OF this] show ?case by (simp add: run_def)
qed

lemma server_step: "server (snd (step params ev st)) = server st"
  by (cases ev) simp_all

lemma server_run: "server (run params evs st) = server st"
proof (induction evs arbitrary: st)
  case Nil
  then show ?case by (simp add: run_def)
next
  case (Cons ev evs)
  have "run params (ev # evs) st = run params evs (snd (step params ev st))" by (simp add: run_def)
  with Cons.IH [of "snd (step params ev st)"] show ?case by (simp add: server_step)
qed

subsection \<open>Disposal before a submission\<close>

text \<open>
  Claim C3. In every session, after any events that have left the promise pending (no
  call of \<^verbatim>\<open>submit\<close> has resolved it), the disposal of the panel resolves the promise
  with \<^verbatim>\<open>undefined\<close>.
\<close>

theorem disposal_resolves_undefined:
  "promise (run params evs (executor params this data pnl)) = None \<Longrightarrow>
   promise (run params (evs @ [panel_closed]) (executor params this data pnl)) = Some None"
proof -
  let ?st = "run params evs (executor params this data pnl)"
  assume pending: "promise ?st = None"
  have "open_session ?st" by (rule open_run) (rule open_executor)
  with pending have "onDispose ?st" "\<not> panel_disposed ?st" by (simp_all add: open_session_def)
  with pending have "promise (panel_dispose ?st) = Some None" by (simp add: promise_panel_dispose)
  then show ?thesis by (simp add: run_append run_def)
qed

theorem disposal_resolves_undefined_witness:
  "promise (run example_params [call ''submit'' ''bad''] example_session) = None \<and>
   promise (run example_params ([call ''submit'' ''bad''] @ [panel_closed]) example_session)
     = Some None"
  using disposal_resolves_undefined
    [of example_params "[call ''submit'' ''bad'']" example_webview None example_panel]
  by (simp add: run_def example_call_submit example_promise example_session_def [symmetric])

subsection \<open>The \<^verbatim>\<open>init\<close> command\<close>

text \<open>
  Claim C5, amended. When the description has commands and neither they nor the
  emitters of the instance have the key \<^verbatim>\<open>init\<close>, the registered \<^verbatim>\<open>init\<close> command
  returns the \<open>data\<close> of the call of \<^verbatim>\<open>show\<close>, \<^verbatim>\<open>undefined\<close> included, at any moment of the
  session, and leaves the session as it is.
\<close>

theorem init_returns_data:
  assumes "commands params = Some cmds"
    and "DAList.lookup cmds ''init'' = None"
    and "DAList.lookup (emitters this) ''init'' = None"
  shows "step params (call ''init'' arg) (run params evs (executor params this data pnl))
           = (returned_data data, run params evs (executor params this data pnl))"
proof -
  have "DAList.lookup (registered cmds (emitters this) data) ''init'' = Some (builtin_init data)"
    using assms(2,3) by (simp add: lookup_registered)
  then show ?thesis
    by (simp add: remote_call_def server_run server_executor [OF assms(1)])
qed

theorem init_returns_data_witness:
  "commands example_params = Some (DAList.update ''ping'' 7 DAList.empty) \<and>
   DAList.lookup (DAList.update ''ping'' (7::nat) DAList.empty) ''init'' = None \<and>
   DAList.lookup (emitters example_webview) ''init'' = None \<and>
   step example_params (call ''init'' ''x'')
       (run example_params [call ''submit'' ''bad''] (executor example_params example_webview (Some 5) example_panel))
     = (returned_data (Some 5),
        run example_params [call ''submit'' ''bad''] (executor example_params example_webview (Some 5) example_panel))"
  using init_returns_data
    [of example_params "DAList.update ''ping'' 7 DAList.empty" example_webview "''x''"
      "[call ''submit'' ''bad'']" "Some 5" example_panel]
  by (simp add: example_emitters DAList.lookup_update) (simp add: example_params_def)

text \<open>
  Claim C5 as stated fails: a description whose commands declare \<^verbatim>\<open>init\<close> themselves
  overrides the built-in, since \<^verbatim>\<open>...params.commands\<close> is spread after \<^verbatim>\<open>init\<close>; the
  registered \<^verbatim>\<open>init\<close> is then the declared command, and the call does not return the data.
\<close>

theorem init_overridden_counterexample:
  "fst (step (example_params\<lparr>commands := Some (DAList.update ''init'' 9 DAList.empty)\<rparr>)
         (call ''init'' ''x'')
         (executor (example_params\<lparr>commands := Some (DAList.update ''init'' 9 DAList.empty)\<rparr>)
            example_webview (Some 5) example_panel))
     = ran_command 9 \<and>
   fst (step (example_params\<lparr>commands := Some (DAList.update ''init'' 9 DAList.empty)\<rparr>)
         (call ''init'' ''x'')
         (executor (example_params\<lparr>commands := Some (DAList.update ''init'' 9 DAList.empty)\<rparr>)
            example_webview (Some 5) example_panel))
     \<noteq> returned_data (Some 5)"
  by (simp add: remote_call_def executor_def lookup_registered example_emitters DAList.lookup_update)

subsection \<open>Descriptions without commands\<close>

lemma step_no_server:
  "server st = None \<Longrightarrow> suspended st = [] \<Longrightarrow>
   snd (step params ev st) = (if ev = panel_closed then panel_dispose st else st)"
  by (cases ev) (simp_all add: remote_call_def submit_resume_def)

lemma no_server_run:
  "server st = None \<Longrightarrow> suspended st = [] \<Longrightarrow> open_session st \<Longrightarrow>
   promise st = None \<or> promise st = Some None \<Longrightarrow>
   promise (run params evs st) =
     (if promise st = None \<and> panel_closed \<notin> set evs then None else Some None)"
proof (induction evs arbitrary: st)
  case Nil
  then show ?case by (auto simp: run_def)
next
  case (Cons ev evs)
  let ?st = "snd (step params ev st)"
  have r: "run params (ev # evs) st = run params evs ?st" by (simp add: run_def)
  have st: "?st = (if ev = panel_closed then panel_dispose st else st)"
    using Cons.prems(1,2) by (rule step_no_server)
  have s: "server ?st = None" using Cons.prems(1) by (simp add: server_step)
  have q: "suspended ?st = []" using Cons.prems(2) by (simp add: st)
  have o: "open_session ?st" using Cons.prems(3) by (rule open_step)
  have p: "promise ?st = (if ev = panel_closed \<and> promise st = None then Some None else promise st)"
    using Cons.prems(3) by (simp add: st promise_panel_dispose open_session_def)
  from p Cons.prems(4) have p': "promise ?st = None \<or> promise ?st = Some None" by auto
  show ?case unfolding r Cons.IH [OF s q o p'] using p Cons.prems(4) by auto
qed

text \<open>
  Claim C10. When the description declares no commands, nothing is registered with
  the messaging layer at any moment of the session, so no remote call finds a handler,
  and the promise is pending until the first disposal of the panel and resolved with
  \<^verbatim>\<open>undefined\<close> from then on: it never resolves with a value.
\<close>

theorem no_commands_only_disposal:
  assumes "commands params = None"
  shows "server (run params evs (executor params this data pnl)) = None \<and>
         fst (step params (call key arg) (run params evs (executor params this data pnl))) = no_handler \<and>
         promise (run params evs (executor params this data pnl)) =
           (if panel_closed \<in> set evs then Some None else None)"
proof -
  let ?st = "executor params this data pnl"
  have s: "server ?st = None" using assms by (rule server_executor_None)
  have "suspended ?st = []" "promise ?st = None" using assms by (simp_all add: executor_def)
  from no_server_run [OF s this(1) open_executor, of params evs] this(2)
  have "promise (run params evs ?st) = (if panel_closed \<in> set evs then Some None else None)"
    by simp
  with s show ?thesis by (simp add: server_run remote_call_def)
qed

theorem no_commands_only_disposal_witness:
  "commands (example_params\<lparr>commands := None\<rparr>) = None \<and>
   promise (run (example_params\<lparr>commands := None\<rparr>) [call ''submit'' ''ok'']
      (executor (example_params\<lparr>commands := None\<rparr>) example_webview None example_panel)) = None \<and>
   promise (run (example_params\<lparr>commands := None\<rparr>) [call ''submit'' ''ok'', panel_closed]
      (executor (example_params\<lparr>commands := None\<rparr>) example_webview None example_panel)) = Some None"
  using no_commands_only_disposal
      [of "example_params\<lparr>commands := None\<rparr>" "[call ''submit'' ''ok'']" example_webview None
        example_panel]
    no_commands_only_disposal
      [of "example_params\<lparr>commands := None\<rparr>" "[call ''submit'' ''ok'', panel_closed]"
        example_webview None example_panel]
  by simp

subsection \<open>Submissions\<close>






lemma resume_falsy:
  "i < length (suspended st) \<Longrightarrow> suspended st ! i = (V, Fulfils False) \<Longrightarrow>
   snd (step params (settled i) st) =
     st\<lparr>suspended := take i (suspended st) @ drop (Suc i) (suspended st)\<rparr>"
  by (simp add: submit_resume_def Let_def)

lemma falsy_submit:
  "validateSubmit params = Some hook \<Longrightarrow> hook V = Value False \<or> hook V = Promise (Fulfils False) \<Longrightarrow>
   snd (submit params V st) = st \<or>
   snd (submit params V st) = st\<lparr>suspended := suspended st @ [(V, Fulfils False)]\<rparr>"
  by (auto simp: submit_def)

lemma falsy_call:
  assumes "validateSubmit params = Some hook"
    and "hook V = Value False \<or> hook V = Promise (Fulfils False)"
  shows "snd (step params (call ''submit'' V) st) = st \<or>
         snd (step params (call ''submit'' V) st) = st\<lparr>suspended := suspended st @ [(V, Fulfils False)]\<rparr>"
  using falsy_submit [OF assms, of st]
  by (simp add: remote_call_def split: option.splits handler.splits)

lemma pending_open_dispose:
  "open_session st \<Longrightarrow> promise st = None \<Longrightarrow>
   promise (snd (step params panel_closed (st\<lparr>suspended := q\<rparr>))) = Some None"
  by (simp add: open_session_def promise_panel_dispose)

lemma pending_open_submit:
  "validateSubmit params = Some hook \<Longrightarrow> hook V' = Value True \<Longrightarrow> promise st = None \<Longrightarrow>
   server st = Some srv \<Longrightarrow> DAList.lookup (handlers srv) ''submit'' = Some builtin_submit \<Longrightarrow>
   promise (snd (step params (call ''submit'' V') (st\<lparr>suspended := q\<rparr>))) = Some (Some V')"
  by (simp add: remote_call_def submit_def promise_submit_accept)

text \<open>
  Claim C4. When the declared hook gives a falsy result for \<open>V\<close>, as a value or as the
  fulfilment of a promise, a call of \<^verbatim>\<open>submit\<close> with \<open>V\<close> in a pending session leaves
  the promise pending, the panel undisposed, the listener attached and the registration
  as it was, both after the call and after the promise of the hook has settled; only
  the list of suspended calls changes. The session is still open: a disposal then
  resolves it with \<^verbatim>\<open>undefined\<close>, and a call of the built-in \<^verbatim>\<open>submit\<close> with a value the
  hook accepts resolves it with that value.
\<close>

theorem falsy_submit_keeps_session_open:
  assumes "validateSubmit params = Some hook"
    and "hook V = Value False \<or> hook V = Promise (Fulfils False)"
    and "promise (run params evs (executor params this data pnl)) = None"
  shows "let st = run params evs (executor params this data pnl);
             st1 = snd (step params (call ''submit'' V) st)
         in (promise st1 = None \<and> \<not> panel_disposed st1 \<and> onDispose st1 \<and>
             server st1 = server st \<and>
             promise (snd (step params panel_closed st1)) = Some None \<and>
             (\<forall>srv V'. server st = Some srv \<and>
                  DAList.lookup (handlers srv) ''submit'' = Some builtin_submit \<and>
                  hook V' = Value True \<longrightarrow>
                promise (snd (step params (call ''submit'' V') st1)) = Some (Some V'))) \<and>
            (\<forall>i. i < length (suspended st1) \<and> suspended st1 ! i = (V, Fulfils False) \<longrightarrow>
               (let st2 = snd (step params (settled i) st1)
                in promise st2 = None \<and> \<not> panel_disposed st2 \<and> onDispose st2 \<and>
                   server st2 = server st \<and>
                   promise (snd (step params panel_closed st2)) = Some None \<and>
                   (\<forall>srv V'. server st = Some srv \<and>
                        DAList.lookup (handlers srv) ''submit'' = Some builtin_submit \<and>
                        hook V' = Value True \<longrightarrow>
                      promise (snd (step params (call ''submit'' V') st2)) = Some (Some V'))))"
proof -
  let ?st = "run params evs (executor params this data pnl)"
  let ?st1 = "snd (step params (call ''submit'' V) ?st)"
  have op: "open_session ?st" by (rule open_run) (rule open_executor)
  have Q: "promise s = None \<and> \<not> panel_disposed s \<and> onDispose s \<and> server s = server ?st \<and>
      promise (snd (step params panel_closed s)) = Some None \<and>
      (\<forall>srv V'. server ?st = Some srv \<and>
           DAList.lookup (handlers srv) ''submit'' = Some builtin_submit \<and>
           hook V' = Value True \<longrightarrow>
         promise (snd (step params (call ''submit'' V') s)) = Some (Some V'))"
    if s: "s = ?st\<lparr>suspended := q\<rparr>" for s q
  proof (intro conjI allI impI)
    show "promise s = None" "server s = server ?st" using assms(3) by (simp_all add: s)
    show "\<not> panel_disposed s" "onDispose s" using op assms(3) by (simp_all add: s open_session_def)
    show "promise (snd (step params panel_closed s)) = Some None"
      unfolding s using op assms(3) by (rule pending_open_dispose)
    fix srv V'
    assume "server ?st = Some srv \<and>
      DAList.lookup (handlers srv) ''submit'' = Some builtin_submit \<and> hook V' = Value True"
    then show "promise (snd (step params (call ''submit'' V') s)) = Some (Some V')"
      unfolding s using pending_open_submit [OF assms(1) _ assms(3), of V' srv q] by blast
  qed
  have "\<exists>q. ?st1 = ?st\<lparr>suspended := q\<rparr>"
  proof (rule disjE [OF falsy_call [OF assms(1,2), of ?st]])
    assume "?st1 = ?st"
    then have "?st1 = ?st\<lparr>suspended := suspended ?st\<rparr>" by simp
    then show ?thesis by (rule exI)
  next
    assume "?st1 = ?st\<lparr>suspended := suspended ?st @ [(V, Fulfils False)]\<rparr>"
    then show ?thesis by (rule exI)
  qed
  then obtain q where st1: "?st1 = ?st\<lparr>suspended := q\<rparr>" ..
  have Q1: "promise ?st1 = None \<and> \<not> panel_disposed ?st1 \<and> onDispose ?st1 \<and>
      server ?st1 = server ?st \<and>
      promise (snd (step params panel_closed ?st1)) = Some None \<and>
      (\<forall>srv V'. server ?st = Some srv \<and>
           DAList.lookup (handlers srv) ''submit'' = Some builtin_submit \<and>
           hook V' = Value True \<longrightarrow>
         promise (snd (step params (call ''submit'' V') ?st1)) = Some (Some V'))"
    by (rule Q [OF st1])
  have Q2: "\<forall>i. i < length (suspended ?st1) \<and> suspended ?st1 ! i = (V, Fulfils False) \<longrightarrow>
      (promise (snd (step params (settled i) ?st1)) = None \<and>
       \<not> panel_disposed (snd (step params (settled i) ?st1)) \<and>
       onDispose (snd (step params (settled i) ?st1)) \<and>
       server (snd (step params (settled i) ?st1)) = server ?st \<and>
       promise (snd (step params panel_closed (snd (step params (settled i) ?st1)))) = Some None \<and>
       (\<forall>srv V'. server ?st = Some srv \<and>
            DAList.lookup (handlers srv) ''submit'' = Some builtin_submit \<and>
            hook V' = Value True \<longrightarrow>
          promise (snd (step params (call ''submit'' V') (snd (step params (settled i) ?st1))))
            = Some (Some V')))"
  proof (intro allI impI)
    fix i
    assume i: "i < length (suspended ?st1) \<and> suspended ?st1 ! i = (V, Fulfils False)"
    then have "snd (step params (settled i) ?st1) =
        ?st1\<lparr>suspended := take i (suspended ?st1) @ drop (Suc i) (suspended ?st1)\<rparr>"
      using resume_falsy [of i ?st1 V params] by blast
    also have "\<dots> = ?st\<lparr>suspended := take i (suspended ?st1) @ drop (Suc i) (suspended ?st1)\<rparr>"
      by (subst st1) simp
    finally show "promise (snd (step params (settled i) ?st1)) = None \<and>
       \<not> panel_disposed (snd (step params (settled i) ?st1)) \<and>
       onDispose (snd (step params (settled i) ?st1)) \<and>
       server (snd (step params (settled i) ?st1)) = server ?st \<and>
       promise (snd (step params panel_closed (snd (step params (settled i) ?st1)))) = Some None \<and>
       (\<forall>srv V'. server ?st = Some srv \<and>
            DAList.lookup (handlers srv) ''submit'' = Some builtin_submit \<and>
            hook V' = Value True \<longrightarrow>
          promise (snd (step params (call ''submit'' V') (snd (step params (settled i) ?st1))))
            = Some (Some V'))"
      by (rule Q)
  qed
  show ?thesis unfolding Let_def by (rule conjI [OF Q1 Q2])
qed

lemma example_async_session:
  "executor example_params_async example_webview None example_panel = example_session"
  by (simp add: example_params_async_def example_session_def executor_def)

lemma example_async_call:
  "remote_call example_params_async ''submit'' v example_session =
     (awaiting, example_session\<lparr>suspended := suspended example_session @ [(v, Fulfils (v = ''ok''))]\<rparr>)"
  by (simp add: remote_call_def example_server lookup_registered example_emitters
      DAList.lookup_update submit_def example_params_async_def)

lemma example_suspended: "suspended example_session = []"
  by (simp add: example_session_def executor_def example_params_def)

theorem falsy_submit_keeps_session_open_witness:
  "validateSubmit example_params_async = Some (\<lambda>r. Promise (Fulfils (r = ''ok''))) \<and>
   promise (run example_params_async [] example_session) = None \<and>
   suspended (snd (step example_params_async (call ''submit'' ''bad'') example_session))
     = [(''bad'', Fulfils False)] \<and>
   promise (snd (step example_params_async (call ''submit'' ''bad'') example_session)) = None \<and>
   promise (snd (step example_params_async (settled 0)
      (snd (step example_params_async (call ''submit'' ''bad'') example_session)))) = None \<and>
   promise (snd (step example_params_async panel_closed
      (snd (step example_params_async (settled 0)
        (snd (step example_params_async (call ''submit'' ''bad'') example_session)))))) = Some None"
proof -
  let ?st1 = "snd (step example_params_async (call ''submit'' ''bad'') example_session)"
  have h: "validateSubmit example_params_async = Some (\<lambda>r. Promise (Fulfils (r = ''ok'')))"
    by (simp add: example_params_async_def)
  have f: "(\<lambda>r. Promise (Fulfils (r = ''ok'')) :: nat hook_result) ''bad'' = Value False \<or>
      (\<lambda>r. Promise (Fulfils (r = ''ok'')) :: nat hook_result) ''bad'' = Promise (Fulfils False)"
    by simp
  have p: "promise (run example_params_async []
      (executor example_params_async example_webview None example_panel)) = None"
    by (simp add: run_def example_async_session example_promise)
  have s: "suspended ?st1 = [(''bad'', Fulfils False)]"
    by (simp add: example_async_call example_suspended)
  from falsy_submit_keeps_session_open [OF h f p]
  have a: "promise ?st1 = None"
    and b: "\<forall>i. i < length (suspended ?st1) \<and> suspended ?st1 ! i = (''bad'', Fulfils False) \<longrightarrow>
      promise (snd (step example_params_async (settled i) ?st1)) = None \<and>
      promise (snd (step example_params_async panel_closed
        (snd (step example_params_async (settled i) ?st1)))) = Some None"
    unfolding Let_def run_def example_async_session by simp_all
  from b [rule_format, of 0] s
  have "promise (snd (step example_params_async (settled 0) ?st1)) = None \<and>
      promise (snd (step example_params_async panel_closed
        (snd (step example_params_async (settled 0) ?st1)))) = Some None"
    by simp
  with a h p s show ?thesis by (simp add: example_async_session)
qed

subsection \<open>The hook \<^verbatim>\<open>validateData\<close>\<close>

lemma createVueWebview_window:
  "snd (createVueWebview vs params context w) = w @ [fst (createVueWebview vs params context w)]"
  by (simp add: createVueWebview_def Let_def)

text \<open>
  Claim C8. With a declared hook \<^verbatim>\<open>validateData\<close>: when the hook throws, or the promise
  it returns rejects, \<^verbatim>\<open>show\<close> rejects with that error and the window has no new panel;
  when the hook returns a value or its promise fulfils, truthy or falsy alike, the panel
  is created and the session starts, in the same way for both.
\<close>

theorem validateData_outcome:
  assumes "validateData params = Some hook"
  shows "(\<forall>e. hook data = Throws e \<or> hook data = Promise (Rejects e) \<longrightarrow>
            show_webview vs params this data w = (Inl e, w)) \<and>
         (\<forall>b. hook data = Value b \<or> hook data = Promise (Fulfils b) \<longrightarrow>
            show_webview vs params this data w =
              (Inr (executor params this data (fst (createVueWebview vs params (context_w this) w))),
               w @ [fst (createVueWebview vs params (context_w this) w)]))"
proof (intro conjI allI impI)
  fix e
  assume "hook data = Throws e \<or> hook data = Promise (Rejects e)"
  then have "await_call (Some (hook data)) = Inl e" by auto
  then show "show_webview vs params this data w = (Inl e, w)"
    by (simp add: show_webview_def assms)
next
  fix b
  assume "hook data = Value b \<or> hook data = Promise (Fulfils b)"
  then have "await_call (Some (hook data)) = Inr b" by auto
  then show "show_webview vs params this data w =
      (Inr (executor params this data (fst (createVueWebview vs params (context_w this) w))),
       w @ [fst (createVueWebview vs params (context_w this) w)])"
    by (simp add: show_webview_def assms case_prod_beta createVueWebview_window)
qed

lemma example_webview_context: "context_w example_webview = example_context"
  by (simp add: example_webview_def)

theorem validateData_outcome_witness:
  "validateData (example_params\<lparr>validateData := Some (\<lambda>d. Throws 1)\<rparr>) = Some (\<lambda>d. Throws 1) \<and>
   show_webview example_vscode (example_params\<lparr>validateData := Some (\<lambda>d. Throws 1)\<rparr>)
       example_webview None [] = (Inl 1, []) \<and>
   validateData (example_params\<lparr>validateData := Some (\<lambda>d. Value False)\<rparr>) = Some (\<lambda>d. Value False) \<and>
   show_webview example_vscode (example_params\<lparr>validateData := Some (\<lambda>d. Value False)\<rparr>)
       example_webview None [] =
     (Inr (executor (example_params\<lparr>validateData := Some (\<lambda>d. Value False)\<rparr>) example_webview None
            (fst (createVueWebview example_vscode
                   (example_params\<lparr>validateData := Some (\<lambda>d. Value False)\<rparr>) example_context []))),
      [fst (createVueWebview example_vscode
             (example_params\<lparr>validateData := Some (\<lambda>d. Value False)\<rparr>) example_context [])])"
proof -
  have t: "validateData (example_params\<lparr>validateData := Some (\<lambda>d. Throws 1)\<rparr>) = Some (\<lambda>d. Throws 1)"
    and f: "validateData (example_params\<lparr>validateData := Some (\<lambda>d. Value False)\<rparr>)
      = Some (\<lambda>d. Value False)"
    by simp_all
  from validateData_outcome
    [OF t, where data = None and vs = example_vscode and this = example_webview and w = "[]",
      THEN conjunct1, rule_format, of 1]
  have a: "show_webview example_vscode (example_params\<lparr>validateData := Some (\<lambda>d. Throws 1)\<rparr>)
       example_webview None [] = (Inl 1, [])"
    by simp
  from validateData_outcome
    [OF f, where data = None and vs = example_vscode and this = example_webview and w = "[]",
      THEN conjunct2, rule_format, of False]
  have b: "show_webview example_vscode (example_params\<lparr>validateData := Some (\<lambda>d. Value False)\<rparr>)
       example_webview None [] =
     (Inr (executor (example_params\<lparr>validateData := Some (\<lambda>d. Value False)\<rparr>) example_webview None
            (fst (createVueWebview example_vscode
                   (example_params\<lparr>validateData := Some (\<lambda>d. Value False)\<rparr>) example_context []))),
      [fst (createVueWebview example_vscode
             (example_params\<lparr>validateData := Some (\<lambda>d. Value False)\<rparr>) example_context [])])"
    by (simp add: example_webview_context)
  from t a f b show ?thesis by blast
qed

subsection \<open>The HTML document\<close>

lemma line_sublist: "l \<in> set ls \<Longrightarrow> sublist l (unlines ls)"
proof (induction ls rule: induct_list012)
  case 1
  then show ?case by simp
next
  case (2 x)
  then show ?case by simp
next
  case (3 x y zs)
  show ?case
  proof (cases "l = x")
    case True
    then show ?thesis by simp
  next
    case False
    with 3 have "sublist l (unlines (y # zs))" by simp
    then show ?thesis by (simp add: sublist_append sublist_Cons_right)
  qed
qed

lemma part_of_line: "sublist p l \<Longrightarrow> l \<in> set ls \<Longrightarrow> sublist p (unlines ls)"
  using line_sublist sublist_order.order_trans by blast

lemma sublist_separator:
  assumes "c \<notin> set p"
  shows "sublist p (h @ c # ys) \<longleftrightarrow> sublist p h \<or> sublist p ys"
proof
  assume "sublist p (h @ c # ys)"
  then consider "sublist p h" | "sublist p (c # ys)"
    | xs1 xs2 where "p = xs1 @ xs2" "suffix xs1 h" "prefix xs2 (c # ys)"
    by (auto simp: sublist_append)
  then show "sublist p h \<or> sublist p ys"
  proof cases
    case 1
    then show ?thesis by simp
  next
    case 2
    then have "prefix p (c # ys) \<or> sublist p ys" by (simp add: sublist_Cons_right)
    with assms show ?thesis by (auto simp: prefix_Cons)
  next
    case 3
    with assms have "xs2 = []" by (auto simp: prefix_Cons)
    with 3 show ?thesis by auto
  qed
next
  assume "sublist p h \<or> sublist p ys"
  then show "sublist p (h @ c # ys)"
    by (auto simp: sublist_append sublist_Cons_right)
qed

lemma resolvedParams_dev:
  "WEBPACK_DEVELOPER_SERVER vs = Some url \<Longrightarrow> url \<noteq> [] \<Longrightarrow>
   resolvedParams vs params =
     \<lparr>scripts = scripts params, stylesheets = stylesheets params,
      cspSource = cspSource params @ '' '' @ Uri_toString vs (Uri_parse vs url),
      webviewJs' = webviewJs' params,
      main = Uri_with_path vs (Uri_parse vs url) (''/'' @ webviewJs' params),
      connectSource = '''self' ws:''\<rparr>"
  by (simp add: resolvedParams_def truthy_string_def Let_def HtmlParams.defs)

lemma resolvedParams_bundled:
  "\<not> truthy_string (WEBPACK_DEVELOPER_SERVER vs) \<Longrightarrow>
   resolvedParams vs params =
     \<lparr>scripts = scripts params, stylesheets = stylesheets params,
      cspSource = cspSource params, webviewJs' = webviewJs' params, main = main params,
      connectSource = ''none''\<rparr>"
  by (simp add: resolvedParams_def Let_def HtmlParams.defs)

lemma connect_src_line:
  "sublist (''connect-src '' @ connectSource r @ '';'') (html_template vs r)"
  unfolding html_template_def
  by (rule part_of_line [where l = "''                '' @ ''connect-src '' @ connectSource r @ '';''"])
    (rule sublist_append_leftI, simp)

lemma img_src_line:
  "sublist (''img-src '' @ cspSource r @ '' https:;'') (html_template vs r)"
  unfolding html_template_def
  by (rule part_of_line [where l = "''                '' @ ''img-src '' @ cspSource r @ '' https:;''"])
    (rule sublist_append_leftI, simp)

lemma script_src_line:
  "sublist (''script-src '' @ cspSource r @ '';'') (html_template vs r)"
  unfolding html_template_def
  by (rule part_of_line [where l = "''                '' @ ''script-src '' @ cspSource r @ '';''"])
    (rule sublist_append_leftI, simp)

lemma style_src_line:
  "sublist (''style-src '' @ cspSource r @ '' 'unsafe-inline';'') (html_template vs r)"
  unfolding html_template_def
  by (rule part_of_line
      [where l = "''                '' @ ''style-src '' @ cspSource r @ '' 'unsafe-inline';''"])
    (rule sublist_append_leftI, simp)

lemma main_script_line:
  "sublist (script_tag (Uri_toString vs (main r))) (html_template vs r)"
  unfolding html_template_def
  by (rule part_of_line [where l = "''        '' @ script_tag (Uri_toString vs (main r))"])
    (rule sublist_append_leftI, simp)

lemma ws_in_template:
  "sublist ''ws:'' (html_template vs r) \<longleftrightarrow>
     sublist ''ws:'' (connectSource r) \<or> sublist ''ws:'' (cspSource r) \<or>
     sublist ''ws:'' (scripts r) \<or> sublist ''ws:'' (stylesheets r) \<or>
     sublist ''ws:'' (Uri_toString vs (main r))"
  by (simp add: html_template_def script_tag_def nl_def sublist_Cons_right sublist_separator)

text \<open>
  Claim C7, amended. When the variable names a server (it is set and not empty), in
  the generated document \<^verbatim>\<open>connect-src\<close> is \<^verbatim>\<open>'self' ws:\<close>, the main script is the
  server's URL with the path \<^verbatim>\<open>/webviewJs\<close>, and the source of \<^verbatim>\<open>img-src\<close>,
  \<^verbatim>\<open>script-src\<close> and \<^verbatim>\<open>style-src\<close> is the panel's own source followed by a blank and
  the server's URL: the server is added, the panel's source stays. When the variable
  is unset or empty, \<^verbatim>\<open>connect-src\<close> is \<^verbatim>\<open>none\<close>, the main script is the URI it was given
  (the panel's bundled resource), the source is the panel's own, and \<^verbatim>\<open>ws:\<close> appears
  in the document only where one of the inputs (scripts, stylesheets, source, main
  URI) contains it.
\<close>

theorem html_document_by_mode:
  "(\<forall>url. WEBPACK_DEVELOPER_SERVER vs = Some url \<and> url \<noteq> [] \<longrightarrow>
      (let r = resolvedParams vs params;
           local = Uri_parse vs url;
           doc = resolveWebviewHtml vs params
       in connectSource r = '''self' ws:'' \<and>
          main r = Uri_with_path vs local (''/'' @ webviewJs' params) \<and>
          cspSource r = cspSource params @ '' '' @ Uri_toString vs local \<and>
          sublist ''connect-src 'self' ws:;'' doc \<and>
          sublist (''img-src '' @ cspSource params @ '' '' @ Uri_toString vs local @ '' https:;'')
            doc \<and>
          sublist (''script-src '' @ cspSource params @ '' '' @ Uri_toString vs local @ '';'')
            doc \<and>
          sublist (''style-src '' @ cspSource params @ '' '' @ Uri_toString vs local
                     @ '' 'unsafe-inline';'') doc \<and>
          sublist (script_tag (Uri_toString vs
                     (Uri_with_path vs local (''/'' @ webviewJs' params)))) doc)) \<and>
   (\<not> truthy_string (WEBPACK_DEVELOPER_SERVER vs) \<longrightarrow>
      (let r = resolvedParams vs params;
           doc = resolveWebviewHtml vs params
       in connectSource r = ''none'' \<and>
          main r = main params \<and>
          cspSource r = cspSource params \<and>
          sublist ''connect-src none;'' doc \<and>
          sublist (''img-src '' @ cspSource params @ '' https:;'') doc \<and>
          sublist (''script-src '' @ cspSource params @ '';'') doc \<and>
          sublist (''style-src '' @ cspSource params @ '' 'unsafe-inline';'') doc \<and>
          sublist (script_tag (Uri_toString vs (main params))) doc \<and>
          (sublist ''ws:'' doc \<longleftrightarrow>
             sublist ''ws:'' (cspSource params) \<or> sublist ''ws:'' (scripts params) \<or>
             sublist ''ws:'' (stylesheets params) \<or>
             sublist ''ws:'' (Uri_toString vs (main params)))))"
proof (intro conjI allI impI)
  fix url
  assume "WEBPACK_DEVELOPER_SERVER vs = Some url \<and> url \<noteq> []"
  then have r: "resolvedParams vs params =
     \<lparr>scripts = scripts params, stylesheets = stylesheets params,
      cspSource = cspSource params @ '' '' @ Uri_toString vs (Uri_parse vs url),
      webviewJs' = webviewJs' params,
      main = Uri_with_path vs (Uri_parse vs url) (''/'' @ webviewJs' params),
      connectSource = '''self' ws:''\<rparr>"
    by (simp add: resolvedParams_dev)
  show "let r = resolvedParams vs params;
           local = Uri_parse vs url;
           doc = resolveWebviewHtml vs params
       in connectSource r = '''self' ws:'' \<and>
          main r = Uri_with_path vs local (''/'' @ webviewJs' params) \<and>
          cspSource r = cspSource params @ '' '' @ Uri_toString vs local \<and>
          sublist ''connect-src 'self' ws:;'' doc \<and>
          sublist (''img-src '' @ cspSource params @ '' '' @ Uri_toString vs local @ '' https:;'')
            doc \<and>
          sublist (''script-src '' @ cspSource params @ '' '' @ Uri_toString vs local @ '';'')
            doc \<and>
          sublist (''style-src '' @ cspSource params @ '' '' @ Uri_toString vs local
                     @ '' 'unsafe-inline';'') doc \<and>
          sublist (script_tag (Uri_toString vs
                     (Uri_with_path vs local (''/'' @ webviewJs' params)))) doc"
    unfolding Let_def resolveWebviewHtml_def
    using connect_src_line [of "resolvedParams vs params" vs]
      img_src_line [of "resolvedParams vs params" vs]
      script_src_line [of "resolvedParams vs params" vs]
      style_src_line [of "resolvedParams vs params" vs]
      main_script_line [of vs "resolvedParams vs params"]
    by (simp add: r)
next
  assume "\<not> truthy_string (WEBPACK_DEVELOPER_SERVER vs)"
  then have r: "resolvedParams vs params =
     \<lparr>scripts = scripts params, stylesheets = stylesheets params,
      cspSource = cspSource params, webviewJs' = webviewJs' params, main = main params,
      connectSource = ''none''\<rparr>"
    by (rule resolvedParams_bundled)
  have none: "\<not> sublist ''ws:'' ''none''"
    by (simp add: sublist_Cons_right)
  show "let r = resolvedParams vs params;
           doc = resolveWebviewHtml vs params
       in connectSource r = ''none'' \<and>
          main r = main params \<and>
          cspSource r = cspSource params \<and>
          sublist ''connect-src none;'' doc \<and>
          sublist (''img-src '' @ cspSource params @ '' https:;'') doc \<and>
          sublist (''script-src '' @ cspSource params @ '';'') doc \<and>
          sublist (''style-src '' @ cspSource params @ '' 'unsafe-inline';'') doc \<and>
          sublist (script_tag (Uri_toString vs (main params))) doc \<and>
          (sublist ''ws:'' doc \<longleftrightarrow>
             sublist ''ws:'' (cspSource params) \<or> sublist ''ws:'' (scripts params) \<or>
             sublist ''ws:'' (stylesheets params) \<or>
             sublist ''ws:'' (Uri_toString vs (main params)))"
    unfolding Let_def resolveWebviewHtml_def
    using connect_src_line [of "resolvedParams vs params" vs]
      img_src_line [of "resolvedParams vs params" vs]
      script_src_line [of "resolvedParams vs params" vs]
      style_src_line [of "resolvedParams vs params" vs]
      main_script_line [of vs "resolvedParams vs params"]
      ws_in_template [of vs "resolvedParams vs params"]
    by (simp add: r none)
qed

lemma example_dev_server:
  "WEBPACK_DEVELOPER_SERVER example_vscode_dev = Some ''http://localhost:9000''"
  "Uri_parse example_vscode_dev = (\<lambda>s. s)"
  "Uri_toString example_vscode_dev = (\<lambda>u. u)"
  "Uri_with_path example_vscode_dev = (\<lambda>u p. u @ p)"
  by (simp_all add: example_vscode_dev_def example_vscode_def)

lemma example_bundled:
  "\<not> truthy_string (WEBPACK_DEVELOPER_SERVER example_vscode)"
  "Uri_toString example_vscode = (\<lambda>u. u)"
  by (simp_all add: example_vscode_def truthy_string_def)

theorem html_document_by_mode_witness:
  "WEBPACK_DEVELOPER_SERVER example_vscode_dev = Some ''http://localhost:9000'' \<and>
   ''http://localhost:9000'' \<noteq> [] \<and>
   connectSource (resolvedParams example_vscode_dev example_html) = '''self' ws:'' \<and>
   main (resolvedParams example_vscode_dev example_html) = ''http://localhost:9000/main.js'' \<and>
   cspSource (resolvedParams example_vscode_dev example_html)
     = ''vscode-resource: http://localhost:9000'' \<and>
   sublist ''connect-src 'self' ws:;'' (resolveWebviewHtml example_vscode_dev example_html) \<and>
   sublist (script_tag ''http://localhost:9000/main.js'')
     (resolveWebviewHtml example_vscode_dev example_html) \<and>
   \<not> truthy_string (WEBPACK_DEVELOPER_SERVER example_vscode) \<and>
   connectSource (resolvedParams example_vscode example_html) = ''none'' \<and>
   sublist ''connect-src none;'' (resolveWebviewHtml example_vscode example_html) \<and>
   sublist (script_tag ''vscode-resource:/ext/dist/main.js'')
     (resolveWebviewHtml example_vscode example_html) \<and>
   \<not> sublist ''ws:'' (resolveWebviewHtml example_vscode example_html)"
proof -
  have d: "WEBPACK_DEVELOPER_SERVER example_vscode_dev = Some ''http://localhost:9000'' \<and>
      ''http://localhost:9000'' \<noteq> []"
    by (simp add: example_dev_server)
  have b: "\<not> truthy_string (WEBPACK_DEVELOPER_SERVER example_vscode)"
    by (rule example_bundled)
  from html_document_by_mode [of example_vscode_dev example_html, THEN conjunct1, rule_format, OF d]
  have dev: "connectSource (resolvedParams example_vscode_dev example_html) = '''self' ws:'' \<and>
      main (resolvedParams example_vscode_dev example_html) = ''http://localhost:9000/main.js'' \<and>
      cspSource (resolvedParams example_vscode_dev example_html)
        = ''vscode-resource: http://localhost:9000'' \<and>
      sublist ''connect-src 'self' ws:;'' (resolveWebviewHtml example_vscode_dev example_html) \<and>
      sublist (script_tag ''http://localhost:9000/main.js'')
        (resolveWebviewHtml example_vscode_dev example_html)"
    by (simp add: Let_def example_dev_server example_html_def)
  from html_document_by_mode [of example_vscode example_html, THEN conjunct2, rule_format, OF b]
  have bun: "connectSource (resolvedParams example_vscode example_html) = ''none'' \<and>
      sublist ''connect-src none;'' (resolveWebviewHtml example_vscode example_html) \<and>
      sublist (script_tag ''vscode-resource:/ext/dist/main.js'')
        (resolveWebviewHtml example_vscode example_html) \<and>
      \<not> sublist ''ws:'' (resolveWebviewHtml example_vscode example_html)"
    by (simp add: Let_def example_bundled example_html_def sublist_Cons_right)
  from d b dev bun show ?thesis by blast
qed

text \<open>
  Claim C7 as stated fails for the source of \<^verbatim>\<open>img-src\<close>, \<^verbatim>\<open>script-src\<close> and
  \<^verbatim>\<open>style-src\<close>: with the server set, line 168 keeps the panel's source and appends the
  server's URL, so the source is not the server instead of the bundled resource.
\<close>

theorem csp_source_kept_counterexample:
  "cspSource (resolvedParams example_vscode_dev example_html)
     = ''vscode-resource: http://localhost:9000'' \<and>
   cspSource (resolvedParams example_vscode_dev example_html) \<noteq> ''http://localhost:9000'' \<and>
   prefix (cspSource example_html) (cspSource (resolvedParams example_vscode_dev example_html)) \<and>
   sublist ''script-src vscode-resource: http://localhost:9000;''
     (resolveWebviewHtml example_vscode_dev example_html)"
proof -
  have r: "cspSource (resolvedParams example_vscode_dev example_html)
     = ''vscode-resource: http://localhost:9000''"
    by (simp add: resolvedParams_dev [OF example_dev_server(1)] example_dev_server example_html_def)
  have "sublist (''script-src '' @ cspSource (resolvedParams example_vscode_dev example_html) @ '';'')
     (resolveWebviewHtml example_vscode_dev example_html)"
    unfolding resolveWebviewHtml_def by (rule script_src_line)
  then have "sublist ''script-src vscode-resource: http://localhost:9000;''
     (resolveWebviewHtml example_vscode_dev example_html)"
    unfolding r by simp
  moreover have "cspSource example_html = ''vscode-resource:''"
    by (simp add: example_html_def)
  ultimately show ?thesis unfolding r by simp
qed

end
